theory Spec2Isabelle
  imports Main "HOL-Library.Word"
begin

unbundle bit_operations_syntax

section \<open>Python values, exceptions and containers\<close>

text \<open>
  Python integers are unbounded, so they are \<open>int\<close>; \<open>&\<close>, \<open>|\<close>, \<open><<\<close> and \<open>>>\<close> are
  \<open>AND\<close>, \<open>OR\<close>, \<open>push_bit\<close> and \<open>drop_bit\<close> on \<open>int\<close> (two's complement, as in Python).
  A byte of a file is an \<open>8 word\<close>, a file's contents a list of them. The encoder turns
  an integer into a byte with \<open>bytes([v])\<close>, which raises outside \<open>0..255\<close>; it does so
  only with \<open>v & 255\<close> and with the result of \<open>_encode_alpha\<close>, which are in range (lemmas
  \<open>and_255_range\<close> and \<open>encode_alpha_range\<close>), so \<open>byte_of\<close> below never truncates.

  The first five errors are Python exceptions; both converters catch every exception in
  \<open>convert\<close> (and \<open>_write_srf_file\<close> in its own \<open>try\<close>), print it and return \<open>False\<close>.
  \<open>InvalidSrf\<close> and \<open>TooManySections\<close> are the two places where \<open>_process_srf_file\<close>
  prints a message and returns \<open>False\<close> itself.
\<close>

datatype error =
    IndexError | TypeError | ValueError | AttributeError | StructError
  | InvalidSrf | TooManySections

text \<open>What \<open>getpixel\<close> returns: a bare integer for a single-band image, a tuple otherwise.\<close>

datatype pixel = Scalar int | Tuple "int list"

type_synonym byte = "8 word"

definition byte_of :: "int \<Rightarrow> byte" where
  "byte_of v = word_of_int v"

text \<open>
  An image opened by the image library, as far as the encoder uses it: its size and
  \<open>getpixel((x, y))\<close>, which may raise. The library's pixel access is a parameter of the
  model: nothing below depends on how it treats coordinates.
\<close>

record image =
  width :: int
  height :: int
  getpixel :: "int \<Rightarrow> int \<Rightarrow> error + pixel"

definition and_then :: "error + 'a \<Rightarrow> ('a \<Rightarrow> error + 'b) \<Rightarrow> error + 'b" where
  "and_then m f = (case m of Inl e \<Rightarrow> Inl e | Inr x \<Rightarrow> f x)"

text \<open>\<open>xs[i]\<close>: a negative index counts from the end, an index out of range raises.\<close>

definition getitem :: "'a list \<Rightarrow> int \<Rightarrow> error + 'a" where
  "getitem xs i =
     (if 0 \<le> i \<and> i < int (length xs) then Inr (xs ! nat i)
      else if i < 0 \<and> - int (length xs) \<le> i then Inr (xs ! nat (int (length xs) + i))
      else Inl IndexError)"

text \<open>\<open>xs[:n]\<close>: a negative bound counts from the end; a slice never raises.\<close>

definition slice_to :: "'a list \<Rightarrow> int \<Rightarrow> 'a list" where
  "slice_to xs n = (if 0 \<le> n then take (nat n) xs else take (nat (int (length xs) + n)) xs)"

text \<open>\<open>max(xs)\<close> raises \<open>ValueError\<close> on an empty sequence.\<close>

definition py_max :: "int list \<Rightarrow> error + int" where
  "py_max xs = (case xs of [] \<Rightarrow> Inl ValueError | x # ys \<Rightarrow> Inr (fold max ys x))"

text \<open>\<open>range(n)\<close> is empty for \<open>n \<le> 0\<close>.\<close>

definition py_range :: "int \<Rightarrow> int list" where
  "py_range n = map int [0..<nat n]"

text \<open>
  A \<open>for\<close> loop whose body may raise: the loop stops at the first exception.
\<close>

fun for_each :: "'a list \<Rightarrow> ('a \<Rightarrow> 's \<Rightarrow> error + 's) \<Rightarrow> 's \<Rightarrow> error + 's" where
  "for_each [] body s = Inr s"
| "for_each (x # xs) body s =
     (case body x s of Inl e \<Rightarrow> Inl e | Inr s' \<Rightarrow> for_each xs body s')"

section \<open>Pixel codec\<close>

text \<open>\<open>Png2Srf._encode_color\<close>: a packed 24-bit colour to the 16-bit colour word.\<close>

definition encode_color :: "int \<Rightarrow> int" where
  "encode_color color =
     (let r = drop_bit 19 (color AND 0xff0000);
          g = drop_bit 11 (color AND 0x00ff00);
          b = drop_bit 3 (color AND 0x0000ff)
      in push_bit 11 r OR push_bit 5 g OR b)"

text \<open>\<open>Png2Srf._encode_alpha\<close>.\<close>

definition encode_alpha :: "int \<Rightarrow> int" where
  "encode_alpha alpha =
     (let a = drop_bit 1 (255 - (alpha AND 255))
      in if a = 127 then 128 else a)"

text \<open>\<open>Srf2Png._decode_color\<close>: the two bytes of a colour word, low byte first.\<close>

definition decode_color :: "int \<Rightarrow> int \<Rightarrow> int \<times> int \<times> int" where
  "decode_color b1 b2 =
     (let v = push_bit 8 b2 + b1;
          r = push_bit 3 (drop_bit 11 (v AND 0xf800));
          g = push_bit 2 (drop_bit 5 (v AND 0x07e0));
          b = push_bit 3 (v AND 0x001f)
      in (r, g, b))"

text \<open>\<open>Srf2Png._decode_alpha\<close>.\<close>

definition decode_alpha :: "int \<Rightarrow> int" where
  "decode_alpha b =
     (let a = push_bit 1 (b AND 0xff);
          a' = (if a \<ge> 254 then 255 else a)
      in 255 - a')"

text \<open>
  The codec pairs as the converters compose them. The encoder packs a pixel as
  \<open>(r << 16) | (g << 8) | b\<close> before \<open>_encode_color\<close> and writes the colour word with
  \<open>_write_int16\<close>, low byte first; the decoder hands those two bytes to \<open>_decode_color\<close>.
\<close>

definition pack_rgb :: "int \<Rightarrow> int \<Rightarrow> int \<Rightarrow> int" where
  "pack_rgb r g b = push_bit 16 r OR push_bit 8 g OR b"

definition EncodeColor :: "int \<Rightarrow> int \<Rightarrow> int \<Rightarrow> int" where
  "EncodeColor r g b = encode_color (pack_rgb r g b)"

definition DecodeColor :: "int \<Rightarrow> int \<times> int \<times> int" where
  "DecodeColor word = decode_color (word AND 255) (drop_bit 8 word AND 255)"

section \<open>The encoder, \<open>Png2Srf\<close>\<close>

text \<open>
  The converter object. \<open>srf_file\<close> is not an attribute in the source, where the open
  output file is passed from method to method: it holds the bytes written so far, so that
  \<open>srf_file.tell()\<close> is its length.
\<close>

record png2srf =
  checksum :: int
  section_count :: int
  section_widths :: "int list"
  section_heights :: "int list"
  rgb_image :: "image option"
  mask_image :: "image option"
  srf_file :: "byte list"

text \<open>\<open>Png2Srf.__init__\<close>, with no file open yet.\<close>

definition init :: png2srf where
  "init = \<lparr> checksum = 0, section_count = 0,
            section_widths = replicate 10 0, section_heights = replicate 10 0,
            rgb_image = None, mask_image = None, srf_file = [] \<rparr>"

text \<open>
  \<open>_validate_sections\<close>: \<open>False\<close> after a message, \<open>True\<close>, or an exception. The loop
  returns at the first section with a zero height or (then) a zero width.
\<close>

fun validate_loop :: "int list \<Rightarrow> png2srf \<Rightarrow> error + bool" where
  "validate_loop [] s = Inr True"
| "validate_loop (i # rest) s =
     and_then (getitem (section_heights s) i) (\<lambda>h.
       if h = 0 then Inr False
       else and_then (getitem (section_widths s) i) (\<lambda>w.
         if w = 0 then Inr False else validate_loop rest s))"

definition validate_sections :: "png2srf \<Rightarrow> error + bool" where
  "validate_sections s =
     (if section_count s = 0 then Inr False
      else validate_loop (py_range (section_count s)) s)"

text \<open>
  \<open>_load_images\<close>, given the images that \<open>Image.open\<close> returned (\<open>mask_img\<close> is \<open>None\<close> when
  the info file names no mask). Every exception is caught inside and gives \<open>False\<close>.
\<close>

definition load_images :: "image \<Rightarrow> image option \<Rightarrow> png2srf \<Rightarrow> bool \<times> png2srf" where
  "load_images rgb mask_img s =
     (case py_max (slice_to (section_widths s) (section_count s)) of
        Inl e \<Rightarrow> (False, s)
      | Inr expected_image_width \<Rightarrow>
          (let expected_image_height = sum_list (slice_to (section_heights s) (section_count s));
               s1 = s\<lparr>rgb_image := Some rgb\<rparr>
           in case mask_img of
                Some m \<Rightarrow>
                  (let s2 = s1\<lparr>mask_image := Some m\<rparr>
                   in if width m < expected_image_width \<or> height m < expected_image_height
                      then (False, s2)
                      else if width rgb < expected_image_width \<or> height rgb < expected_image_height
                      then (False, s2)
                      else (True, s2))
              | None \<Rightarrow>
                  if width rgb < expected_image_width \<or> height rgb < expected_image_height
                  then (False, s1)
                  else (True, s1)))"

text \<open>\<open>_add_bytes_to_checksum\<close>.\<close>

definition add_bytes_to_checksum :: "byte list \<Rightarrow> png2srf \<Rightarrow> png2srf" where
  "add_bytes_to_checksum byte_data s =
     s\<lparr>checksum := fold (\<lambda>b c. c + uint b) byte_data (checksum s)\<rparr>"

text \<open>
  The loop shared by \<open>_write_int32\<close> (four rounds) and \<open>_write_int16\<close> (two): write the
  low byte, add it to the checksum, shift the value right by eight.
\<close>

fun write_int_loop :: "nat \<Rightarrow> int \<Rightarrow> png2srf \<Rightarrow> png2srf" where
  "write_int_loop 0 v s = s"
| "write_int_loop (Suc n) v s =
     (let byte_val = v AND 255
      in write_int_loop n (drop_bit 8 v)
           (s\<lparr>srf_file := srf_file s @ [byte_of byte_val], checksum := checksum s + byte_val\<rparr>))"

definition write_int32 :: "int \<Rightarrow> png2srf \<Rightarrow> png2srf" where
  "write_int32 v s = write_int_loop 4 v s"

definition write_int16 :: "int \<Rightarrow> png2srf \<Rightarrow> png2srf" where
  "write_int16 v s = write_int_loop 2 v s"

text \<open>\<open>_write_p_string\<close>, for the ASCII strings it is called with.\<close>

definition write_p_string :: "string \<Rightarrow> png2srf \<Rightarrow> png2srf" where
  "write_p_string str s =
     (let s1 = write_int32 (int (length str)) s;
          string_bytes = map of_char str
      in add_bytes_to_checksum string_bytes (s1\<lparr>srf_file := srf_file s1 @ string_bytes\<rparr>))"

text \<open>\<open>_write_srf_header\<close>.\<close>

definition write_srf_header :: "png2srf \<Rightarrow> png2srf" where
  "write_srf_header s =
     (let file_id = map of_char ''GARMIN BITMAP 01'';
          s = add_bytes_to_checksum file_id (s\<lparr>srf_file := srf_file s @ file_id\<rparr>);
          s = write_int32 4 s;
          s = write_int32 4 s;
          s = write_int32 (section_count s) s;
          s = write_int32 5 s;
          s = write_p_string ''578'' s;
          s = write_int32 6 s;
          s = write_p_string ''1.00'' s;
          s = write_int32 7 s
      in write_p_string ''006-D0578-XX'' s)"

text \<open>
  The alpha of one pixel (\<open>_write_image_section\<close>, first loop body): from the mask image
  when there is one (the first band of a tuple, or the bare value), else from the fourth
  band of the colour image, else 255. \<open>len\<close> of a bare integer raises \<open>TypeError\<close>.
\<close>

definition pixel_alpha :: "png2srf \<Rightarrow> int \<Rightarrow> int \<Rightarrow> error + int" where
  "pixel_alpha s x y =
     (case mask_image s of
        Some m \<Rightarrow>
          and_then (getpixel m x y) (\<lambda>p.
            case p of Tuple bands \<Rightarrow> getitem bands 0 | Scalar v \<Rightarrow> Inr v)
      | None \<Rightarrow>
          (case rgb_image s of
             None \<Rightarrow> Inl AttributeError
           | Some im \<Rightarrow>
               and_then (getpixel im x y) (\<lambda>p.
                 case p of
                   Scalar v \<Rightarrow> Inl TypeError
                 | Tuple bands \<Rightarrow> if length bands \<ge> 4 then getitem bands 3 else Inr 255)))"

text \<open>The packed colour of one pixel (\<open>_write_image_section\<close>, second loop body).\<close>

definition pixel_color :: "png2srf \<Rightarrow> int \<Rightarrow> int \<Rightarrow> error + int" where
  "pixel_color s x y =
     (case rgb_image s of
        None \<Rightarrow> Inl AttributeError
      | Some im \<Rightarrow>
          and_then (getpixel im x y) (\<lambda>p.
            case p of
              Scalar v \<Rightarrow> Inl TypeError
            | Tuple bands \<Rightarrow>
                if length bands \<ge> 3
                then Inr (push_bit 16 (bands ! 0) OR push_bit 8 (bands ! 1) OR (bands ! 2))
                else Inr 0))"

text \<open>
  \<open>_write_image_section\<close> in its three parts: the section header (source lines 227 to
  235), the alpha block and the colour block.
\<close>

definition write_section_header :: "int \<Rightarrow> int \<Rightarrow> png2srf \<Rightarrow> png2srf" where
  "write_section_header w h s =
     (let s = write_int32 0 s;
          s = write_int32 16 s;
          s = write_int32 0 s;
          s = write_int16 h s;
          s = write_int16 w s;
          s = write_int16 2064 s;
          s = write_int16 (w * 2) s
      in write_int32 0 s)"

definition write_alpha_pixel :: "int \<Rightarrow> int \<Rightarrow> int \<Rightarrow> png2srf \<Rightarrow> error + png2srf" where
  "write_alpha_pixel y_base y x s =
     and_then (pixel_alpha s x (y + y_base)) (\<lambda>alpha.
       let encoded_alpha = encode_alpha alpha
       in Inr (s\<lparr>srf_file := srf_file s @ [byte_of encoded_alpha],
                 checksum := checksum s + encoded_alpha\<rparr>))"

definition write_alpha_block :: "int \<Rightarrow> int \<Rightarrow> int \<Rightarrow> png2srf \<Rightarrow> error + png2srf" where
  "write_alpha_block w h y_base s =
     (let s = write_int32 11 s;
          s = write_int32 (w * h) s
      in for_each (py_range h) (\<lambda>y. for_each (py_range w) (write_alpha_pixel y_base y)) s)"

definition write_color_pixel :: "int \<Rightarrow> int \<Rightarrow> int \<Rightarrow> png2srf \<Rightarrow> error + png2srf" where
  "write_color_pixel y_base y x s =
     and_then (pixel_color s x (y + y_base)) (\<lambda>color.
       Inr (write_int16 (encode_color color) s))"

definition write_color_block :: "int \<Rightarrow> int \<Rightarrow> int \<Rightarrow> png2srf \<Rightarrow> error + png2srf" where
  "write_color_block w h y_base s =
     (let s = write_int32 1 s;
          s = write_int32 (w * h * 2) s
      in for_each (py_range h) (\<lambda>y. for_each (py_range w) (write_color_pixel y_base y)) s)"

definition write_image_section :: "int \<Rightarrow> int \<Rightarrow> png2srf \<Rightarrow> error + png2srf" where
  "write_image_section section_num y_base s =
     and_then (getitem (section_widths s) section_num) (\<lambda>w.
     and_then (getitem (section_heights s) section_num) (\<lambda>h.
     and_then (write_alpha_block w h y_base (write_section_header w h s)) (\<lambda>s.
       write_color_block w h y_base s)))"

text \<open>\<open>_write_srf_footer\<close>: the padding, then the checkbyte, which is not summed.\<close>

definition write_srf_footer :: "png2srf \<Rightarrow> png2srf" where
  "write_srf_footer s =
     (let bytes_written = int (length (srf_file s));
          bytes_to_write = 255 - (bytes_written mod 256);
          s = fold (\<lambda>_ s. s\<lparr>srf_file := srf_file s @ [0xff], checksum := checksum s + 0xff\<rparr>)
                (py_range bytes_to_write) s;
          checkbyte = (256 - (checksum s AND 255)) AND 255
      in s\<lparr>srf_file := srf_file s @ [byte_of checkbyte]\<rparr>)"

text \<open>
  \<open>_write_srf_file\<close>. Opening the file for writing empties it. \<open>Inr\<close> is the return
  value \<open>True\<close> with the state and the file as they are then; \<open>Inl\<close> is the exception
  that the method catches before it returns \<open>False\<close>.
\<close>

definition write_srf_file :: "png2srf \<Rightarrow> error + png2srf" where
  "write_srf_file s =
     (let s = write_srf_header (s\<lparr>srf_file := []\<rparr>)
      in and_then
           (for_each (py_range (section_count s))
              (\<lambda>i (cur_y_pos, s).
                 and_then (write_image_section i cur_y_pos s) (\<lambda>s.
                 and_then (getitem (section_heights s) i) (\<lambda>h.
                   Inr (cur_y_pos + h, s))))
              (0, s))
           (\<lambda>(cur_y_pos, s). Inr (write_srf_footer s)))"

text \<open>
  The \<open>try\<close> block of \<open>convert\<close> from the point where the info file has been read
  into the object: validate, load, write. The result is the method's return value and
  the object (with the file) it leaves.
\<close>

definition convert :: "image \<Rightarrow> image option \<Rightarrow> png2srf \<Rightarrow> bool \<times> png2srf" where
  "convert rgb mask_img s =
     (case validate_sections s of
        Inl e \<Rightarrow> (False, s)
      | Inr False \<Rightarrow> (False, s)
      | Inr True \<Rightarrow>
          (case load_images rgb mask_img s of
             (False, s1) \<Rightarrow> (False, s1)
           | (True, s1) \<Rightarrow>
               (case write_srf_file s1 of
                  Inl e \<Rightarrow> (False, s1)
                | Inr s2 \<Rightarrow> (True, s2))))"

section \<open>The decoder, \<open>Srf2Png\<close>\<close>

text \<open>
  An image made by \<open>Image.new(mode, (w, h))\<close> and filled by \<open>putpixel\<close>: its size and its
  pixels, row by row. A new image is black (and transparent); \<open>putpixel\<close> outside the
  image raises \<open>IndexError\<close>. The decoder's coordinates are never negative.
\<close>

record raster =
  r_width :: nat
  r_height :: nat
  r_pixels :: "pixel list"

definition new_image :: "pixel \<Rightarrow> nat \<Rightarrow> nat \<Rightarrow> raster" where
  "new_image zero w h = \<lparr> r_width = w, r_height = h, r_pixels = replicate (w * h) zero \<rparr>"

definition putpixel :: "raster \<Rightarrow> nat \<Rightarrow> nat \<Rightarrow> pixel \<Rightarrow> error + raster" where
  "putpixel im x y v =
     (if x < r_width im \<and> y < r_height im
      then Inr (im\<lparr>r_pixels := (r_pixels im)[y * r_width im + x := v]\<rparr>)
      else Inl IndexError)"

text \<open>
  The input file is its bytes \<open>data\<close> and a position. \<open>srf_file.seek(n, 1)\<close> adds \<open>n\<close> to
  the position and may pass the end; \<open>srf_file.read(n)\<close> returns the bytes that are there,
  fewer than \<open>n\<close> at the end of the file, and moves past them.
\<close>

definition read :: "byte list \<Rightarrow> nat \<Rightarrow> nat \<Rightarrow> byte list \<times> nat" where
  "read data pos n = (let d = take n (drop pos data) in (d, pos + length d))"

text \<open>\<open>_read_int16\<close> and \<open>_read_int32\<close>: \<open>struct.unpack\<close> raises on a short buffer.\<close>

definition read_int16 :: "byte list \<Rightarrow> nat \<Rightarrow> error + (nat \<times> nat)" where
  "read_int16 data pos =
     (case read data pos 2 of
        ([b0, b1], pos') \<Rightarrow> Inr (unat b0 + 256 * unat b1, pos')
      | _ \<Rightarrow> Inl StructError)"

definition read_int32 :: "byte list \<Rightarrow> nat \<Rightarrow> error + (nat \<times> nat)" where
  "read_int32 data pos =
     (case read data pos 4 of
        ([b0, b1, b2, b3], pos') \<Rightarrow>
          Inr (unat b0 + 256 * unat b1 + 65536 * unat b2 + 16777216 * unat b3, pos')
      | _ \<Rightarrow> Inl StructError)"

text \<open>\<open>_read_basic_string\<close>: bytes that are not ASCII are dropped by \<open>errors='ignore'\<close>.\<close>

definition read_basic_string :: "byte list \<Rightarrow> nat \<Rightarrow> nat \<Rightarrow> string \<times> nat" where
  "read_basic_string data pos n =
     (let (d, pos') = read data pos n
      in (map (\<lambda>b. char_of (unat b)) (filter (\<lambda>b. b < 128) d), pos'))"

text \<open>\<open>_read_p_string\<close>.\<close>

definition read_p_string :: "byte list \<Rightarrow> nat \<Rightarrow> error + (string \<times> nat)" where
  "read_p_string data pos =
     and_then (read_int32 data pos) (\<lambda>(len, pos'). Inr (read_basic_string data pos' len))"

text \<open>The converter object. Everything read from a file is unsigned, hence \<open>nat\<close>.\<close>

record srf2png =
  dec_checksum :: int
  dec_section_count :: nat
  dec_section_widths :: "nat list"
  dec_section_heights :: "nat list"
  dec_rgb_image :: "raster option"
  dec_mask_image :: "raster option"

text \<open>\<open>Srf2Png.__init__\<close>.\<close>

definition dec_init :: srf2png where
  "dec_init = \<lparr> dec_checksum = 0, dec_section_count = 0,
                dec_section_widths = replicate 10 0, dec_section_heights = replicate 10 0,
                dec_rgb_image = None, dec_mask_image = None \<rparr>"

text \<open>\<open>xs[i] = v\<close> for \<open>i \<ge> 0\<close>: assignment past the end raises.\<close>

definition setitem :: "'a list \<Rightarrow> nat \<Rightarrow> 'a \<Rightarrow> error + 'a list" where
  "setitem xs i v = (if i < length xs then Inr (xs[i := v]) else Inl IndexError)"

text \<open>\<open>b[i]\<close> on a buffer, for \<open>i \<ge> 0\<close>.\<close>

definition byte_at :: "byte list \<Rightarrow> nat \<Rightarrow> error + int" where
  "byte_at buf i = (if i < length buf then Inr (uint (buf ! i)) else Inl IndexError)"

text \<open>
  \<open>_read_section_sizes\<close>: one round of the loop, on the position and the object, then
  the method, which leaves the file where it found it.
\<close>

definition read_section_size :: "byte list \<Rightarrow> nat \<Rightarrow> nat \<times> srf2png \<Rightarrow> error + (nat \<times> srf2png)" where
  "read_section_size data i = (\<lambda>(pos, s).
     and_then (read_int16 data (pos + 12)) (\<lambda>(h, pos).
     and_then (read_int16 data pos) (\<lambda>(w, pos).
     and_then (setitem (dec_section_heights s) i h) (\<lambda>hs.
     and_then (setitem (dec_section_widths s) i w) (\<lambda>ws.
       Inr (pos + (8 + 8 + w * h + 8 + w * h * 2),
            s\<lparr>dec_section_heights := hs, dec_section_widths := ws\<rparr>))))))"

definition read_section_sizes :: "byte list \<Rightarrow> nat \<Rightarrow> srf2png \<Rightarrow> error + srf2png" where
  "read_section_sizes data initial_position s =
     and_then (for_each [0..<dec_section_count s] (read_section_size data) (initial_position, s))
       (\<lambda>(pos, s). Inr s)"

text \<open>
  The pixel loop body of \<open>_read_image_section\<close>: decode the alpha and the colour at
  \<open>pos = y * width + x\<close> and put them into the image, or the two images.
\<close>

definition put_section_pixel ::
  "byte list \<Rightarrow> byte list \<Rightarrow> nat \<Rightarrow> nat \<Rightarrow> bool \<Rightarrow> nat \<Rightarrow> nat \<Rightarrow> srf2png \<Rightarrow> error + srf2png" where
  "put_section_pixel alpha_buffer rgb_buffer w y_base separate_mask y x s =
     (let pos = y * w + x
      in and_then (byte_at alpha_buffer pos) (\<lambda>a.
         and_then (byte_at rgb_buffer (pos * 2)) (\<lambda>b1.
         and_then (byte_at rgb_buffer (pos * 2 + 1)) (\<lambda>b2.
           let alpha = decode_alpha a;
               (r, g, b) = decode_color b1 b2
           in case dec_rgb_image s of
                None \<Rightarrow> Inl AttributeError
              | Some im \<Rightarrow>
                  if separate_mask then
                    and_then (putpixel im x (y_base + y) (Tuple [r, g, b])) (\<lambda>im'.
                      case dec_mask_image s of
                        None \<Rightarrow> Inl AttributeError
                      | Some m \<Rightarrow>
                          and_then (putpixel m x (y_base + y) (Scalar alpha)) (\<lambda>m'.
                            Inr (s\<lparr>dec_rgb_image := Some im', dec_mask_image := Some m'\<rparr>)))
                  else
                    and_then (putpixel im x (y_base + y) (Tuple [r, g, b, alpha])) (\<lambda>im'.
                      Inr (s\<lparr>dec_rgb_image := Some im'\<rparr>))))))"

text \<open>\<open>_read_image_section\<close>, on the position and the object.\<close>

definition read_image_section ::
  "byte list \<Rightarrow> nat \<Rightarrow> bool \<Rightarrow> nat \<times> srf2png \<Rightarrow> error + (nat \<times> srf2png)" where
  "read_image_section data y_base separate_mask = (\<lambda>(pos, s).
     and_then (read_int16 data (pos + 12)) (\<lambda>(h, pos).
     and_then (read_int16 data pos) (\<lambda>(w, pos).
     and_then (read_int16 data (pos + 2)) (\<lambda>(linebytes, pos).
       let pos = pos + 4;
           pos = pos + 4;
           pos = pos + 4;
           (alpha_buffer, pos) = read data pos (w * h);
           pos = pos + 4;
           pos = pos + 4;
           (rgb_buffer, pos) = read data pos (w * h * 2)
       in and_then
            (for_each [0..<h] (\<lambda>y. for_each [0..<w]
               (put_section_pixel alpha_buffer rgb_buffer w y_base separate_mask y)) s)
            (\<lambda>s. Inr (pos, s))))))"

text \<open>
  \<open>_process_srf_file\<close> up to the point where the images are complete. What follows in
  the source hands them to the image library to be saved and writes the info file from
  \<open>section_count\<close>, \<open>section_widths\<close> and \<open>section_heights\<close>; \<open>Inr s\<close> is the object
  at that point. The two strings of the header are only printed.
\<close>

definition process_srf_file :: "byte list \<Rightarrow> bool \<Rightarrow> srf2png \<Rightarrow> error + srf2png" where
  "process_srf_file data separate_mask s =
     (let (file_identifier, pos) = read_basic_string data 0 16
      in if file_identifier \<noteq> ''GARMIN BITMAP 01'' then Inl InvalidSrf
         else
           and_then (read_int32 data (pos + 8)) (\<lambda>(count, pos).
           and_then (read_p_string data (pos + 4 + 7 + 4)) (\<lambda>(version_string, pos).
           and_then (read_p_string data (pos + 4)) (\<lambda>(product_string, pos).
             let s = s\<lparr>dec_section_count := count\<rparr>
             in if dec_section_count s > 9 then Inl TooManySections
                else
                  and_then (read_section_sizes data pos s) (\<lambda>s.
                  and_then (if dec_section_count s > 0
                            then py_max (map int (take (dec_section_count s) (dec_section_widths s)))
                            else Inr 0) (\<lambda>full_image_width.
                    let full_image_width = nat full_image_width;
                        full_image_height =
                          sum_list (take (dec_section_count s) (dec_section_heights s));
                        s = (if separate_mask
                             then s\<lparr>dec_rgb_image :=
                                      Some (new_image (Tuple [0, 0, 0]) full_image_width full_image_height),
                                    dec_mask_image :=
                                      Some (new_image (Scalar 0) full_image_width full_image_height)\<rparr>
                             else s\<lparr>dec_rgb_image :=
                                      Some (new_image (Tuple [0, 0, 0, 0]) full_image_width full_image_height)\<rparr>)
                    in and_then
                         (for_each [0..<dec_section_count s]
                            (\<lambda>i (cur_y_pos, pos, s).
                               and_then (read_image_section data cur_y_pos separate_mask (pos, s))
                                 (\<lambda>(pos, s).
                               and_then (getitem (dec_section_heights s) (int i)) (\<lambda>h.
                                 Inr (cur_y_pos + h, pos, s))))
                            (0, pos, s))
                         (\<lambda>(cur_y_pos, pos, s). Inr s)))))))"

section \<open>Properties of the pixel codec\<close>

lemma and_255_eq: "0 \<le> a \<Longrightarrow> a < 256 \<Longrightarrow> (a::int) AND 255 = a"
  using take_bit_int_eq_self[of a 8] by (simp add: take_bit_eq_mask mask_eq_exp_minus_1)

lemma and_255_mod: "(v::int) AND 255 = v mod 256"
proof -
  have "v AND mask 8 = take_bit 8 v" by (simp add: take_bit_eq_mask)
  then show ?thesis by (simp add: mask_eq_exp_minus_1 take_bit_eq_mod)
qed

lemma and_255_range: "0 \<le> (v::int) AND 255 \<and> v AND 255 \<le> 255"
  by (simp add: and_255_mod)

lemma encode_alpha_range: "0 \<le> encode_alpha a \<and> encode_alpha a \<le> 128"
proof -
  have "0 \<le> (255 - (a AND 255)) div 2 \<and> (255 - (a AND 255)) div 2 \<le> 127"
    using and_255_range[of a] by linarith
  then show ?thesis
    by (auto simp: encode_alpha_def Let_def drop_bit_eq_div)
qed

lemma uint_byte_of: "uint (byte_of v) = v mod 256"
  by (simp add: byte_of_def uint_word_of_int take_bit_eq_mod)

lemma uint_byte_of_and: "uint (byte_of (v AND 255)) = v AND 255"
  by (simp add: uint_byte_of and_255_mod)

text \<open>
  Claim C7, as the code has it. The alpha pair is exact at both extremes: 255 is encoded
  as 0 and decoded as 255, and 0 is encoded as 128 (the remapped 127) and decoded as 0.
\<close>

theorem alpha_extremes:
  "decode_alpha (encode_alpha 255) = 255 \<and> decode_alpha (encode_alpha 0) = 0"
  by (simp add: encode_alpha_def decode_alpha_def)

text \<open>Against claim C7 as written: alpha 0 does not come back as 255.\<close>

theorem alpha_zero_not_255: "decode_alpha (encode_alpha 0) \<noteq> 255"
  by (simp add: encode_alpha_def decode_alpha_def)

text \<open>
  Claim C10. For every alpha in 0..255 the round trip is off by at most one: an odd alpha
  from 3 on comes back unchanged, an even alpha from 2 on comes back as the next odd
  value, and 0 and 1 come back as 0.
\<close>

theorem alpha_round_trip:
  assumes "0 \<le> a" "a \<le> 255"
  shows "\<bar>decode_alpha (encode_alpha a) - a\<bar> \<le> 1
       \<and> (odd a \<and> 3 \<le> a \<longrightarrow> decode_alpha (encode_alpha a) = a)
       \<and> (even a \<and> 2 \<le> a \<longrightarrow> decode_alpha (encode_alpha a) = a + 1)
       \<and> (a = 0 \<or> a = 1 \<longrightarrow> decode_alpha (encode_alpha a) = 0)"
proof -
  have a: "a AND 255 = a" using assms by (simp add: and_255_eq)
  define v where "v = (255 - a) div 2"
  have e: "encode_alpha a = (if v = 127 then 128 else v)"
    by (simp add: encode_alpha_def a drop_bit_eq_div v_def)
  have m: "(if v = 127 then 128 else v) AND 255 = (if v = 127 then 128 else v)"
    using assms by (intro and_255_eq) (auto simp: v_def)
  have d: "decode_alpha (encode_alpha a) =
      255 - (if 254 \<le> 2 * (if v = 127 then 128 else v) then 255
             else 2 * (if v = 127 then 128 else v))"
    unfolding e decode_alpha_def m Let_def push_bit_eq_mult by simp
  have r: "decode_alpha (encode_alpha a) = (if a \<le> 1 then 0 else if odd a then a else a + 1)"
    unfolding d v_def using assms by presburger
  show ?thesis unfolding r using assms by presburger
qed

theorem alpha_round_trip_witness:
  "(0::int) \<le> 4 \<and> (4::int) \<le> 255 \<and> \<bar>decode_alpha (encode_alpha 4) - 4\<bar> \<le> 1
   \<and> decode_alpha (encode_alpha 4) = 5"
  using alpha_round_trip[of 4] by simp

text \<open>
  Claim C3 at the colour (0, 255, 0). \<open>_encode_color\<close> shifts the green band right by 11,
  which keeps its top five bits, not six; \<open>_decode_color\<close> reads a six-bit field and
  shifts it left by two. Full green comes back as 124, where the 5/6/5 law gives
  \<open>255 AND 0xFC = 252\<close>.
\<close>

theorem color_round_trip_green:
  "DecodeColor (EncodeColor 0 255 0) = (0, 124, 0)
   \<and> DecodeColor (EncodeColor 0 255 0) \<noteq> (0 AND 0xF8, 255 AND 0xFC, 0 AND 0xF8)"
  by (simp add: DecodeColor_def EncodeColor_def pack_rgb_def encode_color_def decode_color_def)

end
